theory Spec2Isabelle
  imports Main "HOL-Library.AList"
begin

section \<open>Kule: a REST interface over a document store\<close>

text \<open>
  The development embeds \<^verbatim>\<open>kule/kule.py\<close>: the module-level \<^verbatim>\<open>verify\<close>,
  \<^verbatim>\<open>formatters\<close> and \<^verbatim>\<open>content_types\<close>, and the methods of class
  \<^verbatim>\<open>Kule\<close>. The program is Python 2 (implicit relative import of
  \<^verbatim>\<open>helpers\<close>, pymongo 2.5, bottle 0.11.6).
\<close>

subsection \<open>Data\<close>

text \<open>
  JSON-compatible values as the handlers see them. An ObjectId is kept as the list of
  its 24 hexadecimal digit values. A Python dict is an association list with unique
  keys.
\<close>

datatype jvalue =
    JNull
  | JBool bool
  | JNum int
  | JStr string
  | JOid "nat list"
  | JArr "jvalue list"
  | JObj "(string \<times> jvalue) list"

type_synonym document = "(string \<times> jvalue) list"

text \<open>
  Exceptions. \<^verbatim>\<open>abort(code)\<close> raises bottle's \<^verbatim>\<open>HTTPError\<close> with a status code
  and a body text; the other constructors are the Python exceptions that the handlers
  can raise and never catch.
\<close>

datatype exn =
    HTTPError nat string
  | InvalidId
  | ValueError
  | TypeError
  | AttributeError

text \<open>
  Modelled from the spec: the encoders \<^verbatim>\<open>jsonify\<close> and \<^verbatim>\<open>csvify\<close> of
  \<^verbatim>\<open>helpers\<close>, which is not among the sources. Section 1: output encoding is an
  external collaborator, a formatter function keyed by a format token. An encoded body
  is kept as the encoder applied and the value it was applied to; an empty body is
  \<open>None\<close>.
\<close>

datatype formatter = Jsonify | Csvify

type_synonym body = "(formatter \<times> jvalue) option"

definition jsonify :: "jvalue \<Rightarrow> body" where
  "jsonify v = Some (Jsonify, v)"

definition csvify :: "jvalue \<Rightarrow> body" where
  "csvify v = Some (Csvify, v)"

fun encode :: "formatter \<Rightarrow> jvalue \<Rightarrow> body" where
  "encode Jsonify v = jsonify v"
| "encode Csvify v = csvify v"

text \<open>
  What a handler reads from bottle's \<^verbatim>\<open>request\<close>: the decoded JSON body
  (\<^verbatim>\<open>request.json\<close>, \<^verbatim>\<open>None\<close> when the request carries none) and the query
  string parameters (\<^verbatim>\<open>request.query\<close>, \<^verbatim>\<open>request.GET\<close>).
\<close>

record request =
  json :: "document option"
  query :: "(string \<times> string) list"

text \<open>
  The external collaborators, taken as parameters: the pymongo collection methods the
  handlers call (each takes the database state and the collection name) and the two
  parsers. A cursor is the list of matching documents in the store's order. A parser
  returns \<open>None\<close> where the library raises \<^verbatim>\<open>ValueError\<close>.
\<close>

record 'db collab =
  c_find_one :: "'db \<Rightarrow> string \<Rightarrow> document \<Rightarrow> document option"
  c_find :: "'db \<Rightarrow> string \<Rightarrow> document \<Rightarrow> jvalue option \<Rightarrow> document list"
  c_insert :: "'db \<Rightarrow> string \<Rightarrow> document \<Rightarrow> jvalue \<times> 'db"
  c_update :: "'db \<Rightarrow> string \<Rightarrow> document \<Rightarrow> document \<Rightarrow> 'db"
  c_remove :: "'db \<Rightarrow> string \<Rightarrow> document \<Rightarrow> 'db"
  bson_loads :: "string \<Rightarrow> document option"
  json_loads :: "string \<Rightarrow> jvalue option"

text \<open>
  The mutable state a handler works on: the database behind \<^verbatim>\<open>self.connection\<close>
  and bottle's \<^verbatim>\<open>response\<close> object (its status and content type).
\<close>

record 'db world =
  db :: 'db
  status :: nat
  ctype :: "string option"

type_synonym 'db handler_result = "(exn + body) \<times> 'db world"

text \<open>
  The two shapes of URL the generic routes accept: \<^verbatim>\<open>/collection\<close> with an
  optional format suffix (empty when absent) and \<^verbatim>\<open>/collection/pk\<close>.
\<close>

datatype path = ListPath string string | DetailPath string string

type_synonym kwargs = "(string \<times> string) list"

type_synonym 'db view = "kwargs \<Rightarrow> request \<Rightarrow> 'db world \<Rightarrow> 'db handler_result"

text \<open>
  A \<^verbatim>\<open>Kule\<close> instance: the allow-list \<^verbatim>\<open>self.collections\<close> and the attributes
  that a subclass adds and that the class looks up by constructed name with
  \<^verbatim>\<open>getattr\<close>: bundlers (\<^verbatim>\<open>build_<collection>_bundle\<close>) and views
  (\<^verbatim>\<open><method>_<collection>_list\<close>, \<^verbatim>\<open><method>_<collection>_detail\<close>).
\<close>

record 'db kule =
  collections :: "string list option"
  bundle_attrs :: "string \<Rightarrow> (document \<Rightarrow> document) option"
  view_attrs :: "string \<Rightarrow> 'db view option"

subsection \<open>Library behaviour the handlers rely on\<close>

text \<open>
  \<^verbatim>\<open>abort(code)\<close> of bottle 0.11 raises \<^verbatim>\<open>HTTPError(code, text)\<close> with the
  default text below.
\<close>

definition abort_text :: string where
  "abort_text = ''Unknown Error: Application stopped.''"

definition abort :: "nat \<Rightarrow> exn + 'a" where
  "abort code = Inl (HTTPError code abort_text)"

text \<open>
  Modelled from the spec: the identifier codec (\<^verbatim>\<open>bson.ObjectId\<close>, an external
  library). Section 4.1: decoding fails with InvalidIdentifier if the string is not a
  valid representation, e.g. wrong length or charset; a valid one is a 24-digit
  hexadecimal string.
\<close>

definition hex_digit :: "char \<Rightarrow> nat option" where
  "hex_digit c =
     (let n = (of_char c :: nat) in
      if 48 \<le> n \<and> n \<le> 57 then Some (n - 48)
      else if 97 \<le> n \<and> n \<le> 102 then Some (n - 87)
      else if 65 \<le> n \<and> n \<le> 70 then Some (n - 55)
      else None)"

definition ObjectId :: "string \<Rightarrow> exn + jvalue" where
  "ObjectId pk =
     (if length pk = 24 then
        (case those (map hex_digit pk) of
           Some ds \<Rightarrow> Inr (JOid ds)
         | None \<Rightarrow> Inl InvalidId)
      else Inl InvalidId)"

text \<open>
  Modelled from the spec: \<^verbatim>\<open>int_or_default\<close> of \<^verbatim>\<open>helpers\<close>, which is not among
  the sources. Sections 3 and 4.2: limit and offset are non-negative integers; missing,
  non-numeric or negative input falls back to the default; it never fails.
\<close>

definition digit_val :: "char \<Rightarrow> nat option" where
  "digit_val c =
     (let n = (of_char c :: nat) in
      if 48 \<le> n \<and> n \<le> 57 then Some (n - 48) else None)"

definition int_or_default :: "string \<Rightarrow> nat \<Rightarrow> nat" where
  "int_or_default s d =
     (if s = [] then d
      else (case those (map digit_val s) of
              Some ds \<Rightarrow> foldl (\<lambda>a x. 10 * a + x) 0 ds
            | None \<Rightarrow> d))"

text \<open>
  CPython 2 orders two objects of different types, neither of which defines the
  comparison, by a fixed rule: a number is smaller than an object of any other type.
  So a list compared with an integer is always the greater one, whatever its length.
\<close>

definition py2_list_gt_int :: "'a list \<Rightarrow> int \<Rightarrow> bool" where
  "py2_list_gt_int xs n = True"

text \<open>\<^verbatim>\<open>collections.defaultdict(factory, items)\<close>: a missing key gives the default.\<close>

definition defaultdict_get :: "'v \<Rightarrow> (string \<times> 'v) list \<Rightarrow> string \<Rightarrow> 'v" where
  "defaultdict_get dflt items key = (case map_of items key of Some v \<Rightarrow> v | None \<Rightarrow> dflt)"

text \<open>\<^verbatim>\<open>request.query.name\<close>: bottle's FormsDict gives the empty string for a missing key.\<close>

definition query_attr :: "request \<Rightarrow> string \<Rightarrow> string" where
  "query_attr req name = (case map_of (query req) name of Some v \<Rightarrow> v | None \<Rightarrow> [])"

subsection \<open>Module level\<close>

definition verify :: "document \<Rightarrow> bool" where
  "verify j = py2_list_gt_int (map fst j) 3"

definition formatters :: "string \<Rightarrow> formatter" where
  "formatters = defaultdict_get Jsonify [(''.json'', Jsonify), (''.csv'', Csvify)]"

definition content_types :: "string \<Rightarrow> string" where
  "content_types =
     defaultdict_get ''application/json''
       [(''.json'', ''application/json''), (''.csv'', ''text/csv'')]"

subsection \<open>The gateway: methods of class Kule\<close>

definition get_collection :: "'db kule \<Rightarrow> string \<Rightarrow> exn + string" where
  "get_collection k collection =
     (case collections k of
        None \<Rightarrow> Inr collection
      | Some cs \<Rightarrow>
          if cs \<noteq> [] \<and> collection \<notin> set cs then abort 403 else Inr collection)"

definition build_bundle :: "document \<Rightarrow> document" where
  "build_bundle data = data"

definition get_bundler :: "'db kule \<Rightarrow> string \<Rightarrow> document \<Rightarrow> document" where
  "get_bundler k name =
     (case bundle_attrs k (''build_'' @ name @ ''_bundle'') of
        Some f \<Rightarrow> f
      | None \<Rightarrow> build_bundle)"

definition get_detail ::
  "'db collab \<Rightarrow> 'db kule \<Rightarrow> string \<Rightarrow> string \<Rightarrow> 'db world \<Rightarrow> 'db handler_result" where
  "get_detail env k collection pk w =
     (case get_collection k collection of
        Inl e \<Rightarrow> (Inl e, w)
      | Inr cursor \<Rightarrow>
          (case ObjectId pk of
             Inl e \<Rightarrow> (Inl e, w)
           | Inr oid \<Rightarrow>
               (case c_find_one env (db w) cursor [(''_id'', oid)] of
                  None \<Rightarrow> (abort 404, w)
                | Some data \<Rightarrow>
                    if data = [] then (abort 404, w)
                    else (Inr (jsonify (JObj (get_bundler k cursor data))), w))))"

definition put_detail ::
  "'db collab \<Rightarrow> 'db kule \<Rightarrow> string \<Rightarrow> string \<Rightarrow> request \<Rightarrow> 'db world \<Rightarrow>
     'db handler_result" where
  "put_detail env k collection pk req w =
     (case get_collection k collection of
        Inl e \<Rightarrow> (Inl e, w)
      | Inr c \<Rightarrow>
          (case json req of
             None \<Rightarrow> (Inl TypeError, w)
           | Some j \<Rightarrow>
               (let j' = (if map_of j ''_id'' \<noteq> None then AList.delete ''_id'' j else j) in
                case ObjectId pk of
                  Inl e \<Rightarrow> (Inl e, w)
                | Inr oid \<Rightarrow>
                    (Inr (jsonify (JObj j')),
                     w\<lparr>db := c_update env (db w) c [(''_id'', oid)] j', status := 202\<rparr>))))"

definition json_value :: "request \<Rightarrow> jvalue" where
  "json_value req = (case json req of None \<Rightarrow> JNull | Some j \<Rightarrow> JObj j)"

definition patch_detail ::
  "'db collab \<Rightarrow> 'db kule \<Rightarrow> string \<Rightarrow> string \<Rightarrow> request \<Rightarrow> 'db world \<Rightarrow>
     'db handler_result" where
  "patch_detail env k collection pk req w =
     (case get_collection k collection of
        Inl e \<Rightarrow> (Inl e, w)
      | Inr c \<Rightarrow>
          (case ObjectId pk of
             Inl e \<Rightarrow> (Inl e, w)
           | Inr oid \<Rightarrow>
               get_detail env k c pk
                 (w\<lparr>db := c_update env (db w) c [(''_id'', oid)] [(''$set'', json_value req)],
                    status := 202\<rparr>)))"

definition delete_detail ::
  "'db collab \<Rightarrow> 'db kule \<Rightarrow> string \<Rightarrow> string \<Rightarrow> 'db world \<Rightarrow> 'db handler_result" where
  "delete_detail env k collection pk w =
     (case get_collection k collection of
        Inl e \<Rightarrow> (Inl e, w)
      | Inr c \<Rightarrow>
          (case ObjectId pk of
             Inl e \<Rightarrow> (Inl e, w)
           | Inr oid \<Rightarrow>
               (Inr None, w\<lparr>db := c_remove env (db w) c [(''_id'', oid)], status := 204\<rparr>)))"

definition post_list ::
  "'db collab \<Rightarrow> 'db kule \<Rightarrow> string \<Rightarrow> request \<Rightarrow> 'db world \<Rightarrow> 'db handler_result" where
  "post_list env k collection req w =
     (case get_collection k collection of
        Inl e \<Rightarrow> (Inl e, w)
      | Inr c \<Rightarrow>
          (case json req of
             None \<Rightarrow> (Inl AttributeError, w)
           | Some j \<Rightarrow>
               if verify j then
                 (let (inserted, d) = c_insert env (db w) c j in
                  (Inr (jsonify (JObj [(''_id'', inserted)])), w\<lparr>db := d, status := 201\<rparr>))
               else
                 (Inr (jsonify (JObj [(''error'', JStr ''unverified json request'')])),
                  w\<lparr>status := 400\<rparr>)))"

definition get_query :: "'db collab \<Rightarrow> request \<Rightarrow> exn + document" where
  "get_query env req =
     (case map_of (query req) ''query'' of
        None \<Rightarrow> Inr []
      | Some q \<Rightarrow>
          if q = [] then Inr []
          else (case bson_loads env q of None \<Rightarrow> Inl ValueError | Some d \<Rightarrow> Inr d))"

definition get_fields :: "'db collab \<Rightarrow> request \<Rightarrow> exn + jvalue option" where
  "get_fields env req =
     (case map_of (query req) ''fields'' of
        None \<Rightarrow> Inr None
      | Some f \<Rightarrow>
          if f = [] then Inr None
          else (case json_loads env f of None \<Rightarrow> Inl ValueError | Some v \<Rightarrow> Inr (Some v)))"

definition page :: "nat \<Rightarrow> nat \<Rightarrow> nat \<Rightarrow> document list \<Rightarrow> jvalue" where
  "page limit offset total_count objects =
     JObj [(''meta'', JObj [(''limit'', JNum (int limit)),
                            (''offset'', JNum (int offset)),
                            (''total_count'', JNum (int total_count))]),
           (''objects'', JArr (map JObj objects))]"

text \<open>
  The cursor of pymongo 2.5, kept as the list of the matching documents in the store's
  order: \<^verbatim>\<open>count()\<close> is their number, whatever skip and limit are set,
  \<^verbatim>\<open>skip(n)\<close> leaves out the first \<open>n\<close>, and \<^verbatim>\<open>limit(n)\<close> keeps at most
  \<open>n\<close>, where a limit of 0 is no limit.
\<close>

definition cursor_count :: "document list \<Rightarrow> nat" where
  "cursor_count cursor = length cursor"

definition cursor_skip :: "nat \<Rightarrow> document list \<Rightarrow> document list" where
  "cursor_skip n cursor = drop n cursor"

definition cursor_limit :: "nat \<Rightarrow> document list \<Rightarrow> document list" where
  "cursor_limit n cursor = (if n = 0 then cursor else take n cursor)"

text \<open>
  \<^verbatim>\<open>get_list\<close>. The count is taken from the cursor before \<^verbatim>\<open>skip\<close> and
  \<^verbatim>\<open>limit\<close> are applied to it. The call of \<^verbatim>\<open>logging.warn\<close> does not change
  the result and is left out.
\<close>

definition get_list ::
  "'db collab \<Rightarrow> 'db kule \<Rightarrow> string \<Rightarrow> string \<Rightarrow> request \<Rightarrow> 'db world \<Rightarrow>
     'db handler_result" where
  "get_list env k collection format req w =
     (case get_collection k collection of
        Inl e \<Rightarrow> (Inl e, w)
      | Inr c \<Rightarrow>
          (let limit = int_or_default (query_attr req ''limit'') 20;
               offset = int_or_default (query_attr req ''offset'') 0
           in case get_query env req of
                Inl e \<Rightarrow> (Inl e, w)
              | Inr q \<Rightarrow>
                  (case get_fields env req of
                     Inl e \<Rightarrow> (Inl e, w)
                   | Inr flds \<Rightarrow>
                       (let cursor = c_find env (db w) c q flds;
                            total_count = cursor_count cursor;
                            objects = map (get_bundler k c)
                                        (cursor_limit limit (cursor_skip offset cursor))
                        in (Inr (encode (formatters format)
                                   (page limit offset total_count objects)),
                            w\<lparr>ctype := Some (content_types format)\<rparr>)))))"

definition empty_response :: "'db world \<Rightarrow> 'db handler_result" where
  "empty_response w = (Inr None, w)"

definition not_implemented :: "'db world \<Rightarrow> 'db handler_result" where
  "not_implemented w = (abort 501, w)"

subsection \<open>Routing\<close>

text \<open>
  A route callback is called with the URL arguments of its route as keyword arguments.
  A bound method called with a keyword it does not take, or without one it requires,
  raises \<^verbatim>\<open>TypeError\<close>; \<^verbatim>\<open>empty_response\<close> and \<^verbatim>\<open>not_implemented\<close>
  take \<^verbatim>\<open>*args, **kwargs\<close> and accept anything.
\<close>

definition unexpected :: "string list \<Rightarrow> kwargs \<Rightarrow> bool" where
  "unexpected names kw = list_ex (\<lambda>(n, v). n \<notin> set names) kw"

definition call1 ::
  "string \<Rightarrow> (string \<Rightarrow> request \<Rightarrow> 'db world \<Rightarrow> 'db handler_result) \<Rightarrow> 'db view" where
  "call1 a f kw req w =
     (if unexpected [a] kw then (Inl TypeError, w)
      else (case map_of kw a of
              None \<Rightarrow> (Inl TypeError, w)
            | Some x \<Rightarrow> f x req w))"

definition call2 ::
  "string \<Rightarrow> string \<Rightarrow> (string \<Rightarrow> string \<Rightarrow> request \<Rightarrow> 'db world \<Rightarrow> 'db handler_result)
     \<Rightarrow> 'db view" where
  "call2 a b f kw req w =
     (if unexpected [a, b] kw then (Inl TypeError, w)
      else (case map_of kw a of
              None \<Rightarrow> (Inl TypeError, w)
            | Some x \<Rightarrow>
                (case map_of kw b of
                   None \<Rightarrow> (Inl TypeError, w)
                 | Some y \<Rightarrow> f x y req w)))"

text \<open>\<^verbatim>\<open>get_list(self, collection, format='.json')\<close>: the second argument is optional.\<close>

definition call_get_list :: "'db collab \<Rightarrow> 'db kule \<Rightarrow> 'db view" where
  "call_get_list env k kw req w =
     (if unexpected [''collection'', ''format''] kw then (Inl TypeError, w)
      else (case map_of kw ''collection'' of
              None \<Rightarrow> (Inl TypeError, w)
            | Some c \<Rightarrow>
                get_list env k c
                  (case map_of kw ''format'' of None \<Rightarrow> ''.json'' | Some fmt \<Rightarrow> fmt) req w))"

text \<open>The attributes of class \<^verbatim>\<open>Kule\<close> whose names end in \<^verbatim>\<open>_list\<close> or \<^verbatim>\<open>_detail\<close>.\<close>

definition kule_views :: "'db collab \<Rightarrow> 'db kule \<Rightarrow> (string \<times> 'db view) list" where
  "kule_views env k =
     [(''get_detail'', call2 ''collection'' ''pk'' (\<lambda>c pk req. get_detail env k c pk)),
      (''put_detail'', call2 ''collection'' ''pk'' (put_detail env k)),
      (''patch_detail'', call2 ''collection'' ''pk'' (patch_detail env k)),
      (''delete_detail'', call2 ''collection'' ''pk'' (\<lambda>c pk req. delete_detail env k c pk)),
      (''post_list'', call1 ''collection'' (post_list env k)),
      (''get_list'', call_get_list env k),
      (''options_list'', (\<lambda>kw req. empty_response)),
      (''options_detail'', (\<lambda>kw req. empty_response))]"

text \<open>\<^verbatim>\<open>getattr(self, name, default)\<close>: an attribute of the subclass hides one of the class.\<close>

definition getattr_view :: "'db collab \<Rightarrow> 'db kule \<Rightarrow> string \<Rightarrow> 'db view option" where
  "getattr_view env k name =
     (case view_attrs k name of
        Some v \<Rightarrow> Some v
      | None \<Rightarrow> map_of (kule_views env k) name)"

text \<open>
  The four route patterns of \<^verbatim>\<open>dispatch_views\<close>: \<^verbatim>\<open>/<collection>\<close> and
  \<^verbatim>\<open>/<collection>/:id\<close> of a magical view, and the generic
  \<^verbatim>\<open>/:collection#\w+#:format#(\.[\w\d]+)?#\<close> and \<^verbatim>\<open>/:collection/:pk\<close>.
\<close>

datatype pattern = MagicList string | MagicDetail string | GenericList | GenericDetail

type_synonym 'db route = "string \<times> pattern \<times> 'db view"

definition magical_views :: "'db collab \<Rightarrow> 'db kule \<Rightarrow> string \<Rightarrow> string \<Rightarrow> 'db route list" where
  "magical_views env k method collection =
     (case getattr_view env k (method @ ''_'' @ collection @ ''_list'') of
        None \<Rightarrow> []
      | Some list_v \<Rightarrow> [(method, MagicList collection, list_v)]) @
     (case getattr_view env k (method @ ''_'' @ collection @ ''_detail'') of
        None \<Rightarrow> []
      | Some detail_v \<Rightarrow> [(method, MagicDetail collection, detail_v)])"

definition generic_views :: "'db collab \<Rightarrow> 'db kule \<Rightarrow> string \<Rightarrow> 'db route list" where
  "generic_views env k method =
     [(method, GenericList,
         (case getattr_view env k (method @ ''_list'') of
            Some v \<Rightarrow> v
          | None \<Rightarrow> (\<lambda>kw req. not_implemented))),
      (method, GenericDetail,
         (case getattr_view env k (method @ ''_detail'') of
            Some v \<Rightarrow> v
          | None \<Rightarrow> (\<lambda>kw req. not_implemented)))]"

definition dispatch_views :: "'db collab \<Rightarrow> 'db kule \<Rightarrow> 'db route list" where
  "dispatch_views env k =
     concat (map (\<lambda>method.
         concat (map (magical_views env k method)
                   (case collections k of None \<Rightarrow> [] | Some cs \<Rightarrow> cs))
         @ generic_views env k method)
       [''get'', ''post'', ''options''])"

subsection \<open>The transport: matching a request and finishing the response\<close>

datatype verb = GET | POST | PUT | PATCH | DELETE | OPTIONS

fun method_name :: "verb \<Rightarrow> string" where
  "method_name GET = ''get''"
| "method_name POST = ''post''"
| "method_name PUT = ''put''"
| "method_name PATCH = ''patch''"
| "method_name DELETE = ''delete''"
| "method_name OPTIONS = ''options''"

text \<open>The URL arguments a pattern extracts from a path, \<open>None\<close> when it does not match.\<close>

fun url_args :: "pattern \<Rightarrow> path \<Rightarrow> kwargs option" where
  "url_args (MagicList c) (ListPath c' fmt) = (if c = c' \<and> fmt = [] then Some [] else None)"
| "url_args (MagicDetail c) (DetailPath c' pk) = (if c = c' then Some [(''id'', pk)] else None)"
| "url_args GenericList (ListPath c fmt) = Some [(''collection'', c), (''format'', fmt)]"
| "url_args GenericDetail (DetailPath c pk) = Some [(''collection'', c), (''pk'', pk)]"
| "url_args (MagicList c) (DetailPath c' pk) = None"
| "url_args (MagicDetail c) (ListPath c' fmt) = None"
| "url_args GenericList (DetailPath c pk) = None"
| "url_args GenericDetail (ListPath c fmt) = None"

text \<open>
  Modelled from the spec: the route matching of the HTTP transport (bottle 0.11, an
  external library). Section 7: NotImplemented is for a method and path with no handler
  bound, MethodNotAllowed is reserved for disabled verbs. The transport first finds
  the rule for the path, a rule without wildcards before the others and these in the
  order in which they were first bound, and then the callback bound to that rule for
  the request's verb: a path that no rule matches fails with 404, a rule with no
  callback for the verb fails with 405. (A later binding of a rule and verb replaces an
  earlier one; \<^verbatim>\<open>dispatch_views\<close> binds the same view again in that case.)
\<close>

fun is_static :: "pattern \<Rightarrow> bool" where
  "is_static (MagicList c) = True"
| "is_static (MagicDetail c) = False"
| "is_static GenericList = False"
| "is_static GenericDetail = False"

definition chosen_rule :: "'db route list \<Rightarrow> path \<Rightarrow> pattern option" where
  "chosen_rule routes p =
     (case find (\<lambda>(m, pat, view). is_static pat \<and> url_args pat p \<noteq> None) routes of
        Some (m, pat, view) \<Rightarrow> Some pat
      | None \<Rightarrow>
          (case find (\<lambda>(m, pat, view). url_args pat p \<noteq> None) routes of
             Some (m, pat, view) \<Rightarrow> Some pat
           | None \<Rightarrow> None))"

definition route_request ::
  "'db route list \<Rightarrow> verb \<Rightarrow> path \<Rightarrow> request \<Rightarrow> 'db world \<Rightarrow> 'db handler_result" where
  "route_request routes v p req w =
     (case chosen_rule routes p of
        None \<Rightarrow> (Inl (HTTPError 404 ''Not found''), w)
      | Some pat \<Rightarrow>
          (case find (\<lambda>(m, pat', view). pat' = pat \<and> m = method_name v) routes of
             None \<Rightarrow> (Inl (HTTPError 405 ''Method not allowed.''), w)
           | Some (m, pat', view) \<Rightarrow>
               (case url_args pat p of
                  Some kw \<Rightarrow> view kw req w
                | None \<Rightarrow> (Inl (HTTPError 404 ''Not found''), w))))"

text \<open>\<^verbatim>\<open>Kule.error\<close>: the error envelope; \<^verbatim>\<open>error.body or message\<close>.\<close>

definition error :: "nat \<Rightarrow> string \<Rightarrow> string option \<Rightarrow> body" where
  "error status_code error_body message =
     jsonify (JObj [(''error'', JNum (int status_code)),
                    (''message'',
                       if error_body \<noteq> [] then JStr error_body
                       else (case message of Some m \<Rightarrow> JStr m | None \<Rightarrow> JNull))])"

text \<open>
  \<^verbatim>\<open>Kule.get_error_handler\<close>: the status codes with a handler, each with the
  message its \<^verbatim>\<open>partial\<close> binds (none for 400).
\<close>

definition get_error_handler :: "(nat \<times> string option) list" where
  "get_error_handler =
     [(500, Some ''Internal Server Error.''),
      (404, Some ''Document Not Found.''),
      (501, Some ''Not Implemented.''),
      (405, Some ''Method Not Allowed.''),
      (403, Some ''Forbidden.''),
      (400, None)]"

record http_response =
  code :: nat
  content :: body

text \<open>
  How the transport finishes a response. An exception that is not an
  \<^verbatim>\<open>HTTPError\<close> becomes \<^verbatim>\<open>HTTPError(500, "Internal Server Error")\<close>; an
  \<^verbatim>\<open>HTTPError\<close> goes to the handler registered for its status (a status without
  one gets the transport's own error page, left empty here). A normal return keeps the
  status set on \<^verbatim>\<open>response\<close>.
\<close>

definition error_response :: "nat \<Rightarrow> string \<Rightarrow> http_response" where
  "error_response status_code error_body =
     \<lparr>code = status_code,
      content = (case map_of get_error_handler status_code of
                   Some message \<Rightarrow> error status_code error_body message
                 | None \<Rightarrow> None)\<rparr>"

definition finish :: "'db handler_result \<Rightarrow> http_response \<times> 'db" where
  "finish r =
     (case r of
        (Inr b, w) \<Rightarrow> (\<lparr>code = status w, content = b\<rparr>, db w)
      | (Inl (HTTPError status_code error_body), w) \<Rightarrow>
          (error_response status_code error_body, db w)
      | (Inl _, w) \<Rightarrow> (error_response 500 ''Internal Server Error'', db w))"

text \<open>
  A request served by the application of \<^verbatim>\<open>get_bottle_app\<close>; the response starts
  with status 200 and no content type of the handler's choosing.
\<close>

definition world0 :: "'db \<Rightarrow> 'db world" where
  "world0 d = \<lparr>db = d, status = 200, ctype = None\<rparr>"

definition serve ::
  "'db collab \<Rightarrow> 'db kule \<Rightarrow> verb \<Rightarrow> path \<Rightarrow> request \<Rightarrow> 'db \<Rightarrow> http_response \<times> 'db" where
  "serve env k v p req d =
     finish (route_request (dispatch_views env k) v p req (world0 d))"

subsection \<open>Stand-ins for the collaborators\<close>

text \<open>
  A store that records the writes it receives and answers every \<^verbatim>\<open>find_one\<close> with
  \<open>one\<close> and every \<^verbatim>\<open>find\<close> with \<open>many\<close>; its parsers accept nothing but the
  empty object and the empty array. It serves to run the handlers on concrete inputs.
\<close>

datatype store_call =
    Insert string document
  | Update string document document
  | Remove string document

definition recording_store ::
  "document option \<Rightarrow> document list \<Rightarrow> (store_call list) collab" where
  "recording_store one many =
     \<lparr>c_find_one = (\<lambda>d c spec. one),
      c_find = (\<lambda>d c spec flds. many),
      c_insert = (\<lambda>d c doc. (JOid (replicate 24 0), d @ [Insert c doc])),
      c_update = (\<lambda>d c spec doc. d @ [Update c spec doc]),
      c_remove = (\<lambda>d c spec. d @ [Remove c spec]),
      bson_loads = (\<lambda>s. if s = ''{}'' then Some [] else None),
      json_loads = (\<lambda>s. if s = ''[]'' then Some (JArr []) else None)\<rparr>"

text \<open>
  A store that holds no document: every lookup finds nothing, and an update or a removal
  leaves it as it is.
\<close>

definition empty_store :: "(store_call list) collab" where
  "empty_store =
     (recording_store None [])\<lparr>c_update := (\<lambda>d c spec doc. d), c_remove := (\<lambda>d c spec. d)\<rparr>"

text \<open>
  A store over a fixed list of documents whose \<^verbatim>\<open>find\<close> keeps those that have
  every field of the filter with the same value, and whose filter parser accepts the
  empty object and the one filter \<^verbatim>\<open>{"a": 2}\<close>.
\<close>

definition sample_filter :: string where
  "sample_filter = ''{'' @ [CHR 0x22, CHR ''a'', CHR 0x22] @ '': 2}''"

definition matches_spec :: "document \<Rightarrow> document \<Rightarrow> bool" where
  "matches_spec spec doc = list_all (\<lambda>(key, v). map_of doc key = Some v) spec"

definition filtering_store :: "document list \<Rightarrow> (store_call list) collab" where
  "filtering_store many =
     (recording_store None many)
       \<lparr>c_find := (\<lambda>d c spec flds. filter (matches_spec spec) many),
        bson_loads := (\<lambda>s. if s = ''{}'' then Some []
                            else if s = sample_filter then Some [(''a'', JNum 2)]
                            else None)\<rparr>"

text \<open>A plain \<^verbatim>\<open>Kule\<close> instance with the given allow-list and no subclass attributes.\<close>

definition plain_kule :: "string list option \<Rightarrow> 'db kule" where
  "plain_kule cs = \<lparr>collections = cs, bundle_attrs = (\<lambda>n. None), view_attrs = (\<lambda>n. None)\<rparr>"

text \<open>
  A subclass with a bundler for the collection \<^verbatim>\<open>users\<close>:
  \<^verbatim>\<open>build_users_bundle\<close> adds a field to the document.
\<close>

definition tagging_kule :: "'db kule" where
  "tagging_kule =
     \<lparr>collections = None,
      bundle_attrs = (\<lambda>n. if n = ''build_users_bundle''
                           then Some (\<lambda>data. (''bundled'', JBool True) # data) else None),
      view_attrs = (\<lambda>n. None)\<rparr>"


section \<open>Properties\<close>

subsection \<open>Auxiliary facts\<close>

lemmas handler_defs =
  get_detail_def put_detail_def patch_detail_def delete_detail_def post_list_def get_list_def

lemmas stand_in_defs = recording_store_def empty_store_def plain_kule_def world0_def

lemma verify_always: "verify j"
  by (simp add: verify_def py2_list_gt_int_def)

lemma delete_absent: "map_of j key = None \<Longrightarrow> AList.delete key j = j"
  by (induction j) (auto split: if_splits)

lemma ObjectId_error: "ObjectId pk = Inl e \<Longrightarrow> e = InvalidId"
  by (auto simp: ObjectId_def split: if_splits option.splits)

lemma ObjectId_wrong_length: "length pk \<noteq> 24 \<Longrightarrow> ObjectId pk = Inl InvalidId"
  by (simp add: ObjectId_def)

lemma ObjectId_sample:
  "ObjectId ''0123456789abcdefABCDEF01'' =
     Inr (JOid [0, 1, 2, 3, 4, 5, 6, 7, 8, 9, 10, 11, 12, 13, 14, 15,
                10, 11, 12, 13, 14, 15, 0, 1])"
  by (simp add: ObjectId_def hex_digit_def)

lemma plain_kule_permits: "get_collection (plain_kule None) c = Inr c"
  by (simp add: get_collection_def plain_kule_def)

lemma error_response_500:
  "error_response 500 ''Internal Server Error'' =
     \<lparr>code = 500,
      content = jsonify (JObj [(''error'', JNum 500),
                               (''message'', JStr ''Internal Server Error'')])\<rparr>"
  by (simp add: error_response_def error_def get_error_handler_def)











subsection \<open>The claims\<close>

text \<open>
  C1. The claim: a create payload with at most three top-level fields gets a 400
  response and nothing is inserted. The code: \<^verbatim>\<open>verify\<close> compares the list of keys
  itself, not its length, with 3, which in Python 2 is true of every list. A payload
  with one field is inserted and answered with 201.
\<close>

theorem post_list_short_payload_is_inserted:
  "post_list (recording_store None []) (plain_kule None) ''items''
      \<lparr>json = Some [(''a'', JNum 1)], query = []\<rparr> (world0 [])
   = (Inr (jsonify (JObj [(''_id'', JOid (replicate 24 0))])),
      \<lparr>db = [Insert ''items'' [(''a'', JNum 1)]], status = 201, ctype = None\<rparr>)"
  by (simp add: post_list_def get_collection_def verify_def py2_list_gt_int_def stand_in_defs)

text \<open>
  C2. The claim: \<^verbatim>\<open>put_detail\<close> and \<^verbatim>\<open>patch_detail\<close> both discard the identifier
  field of the payload before the update. The code: \<^verbatim>\<open>put_detail\<close> deletes it,
  \<^verbatim>\<open>patch_detail\<close> hands the payload to the store as it came, identifier included.
\<close>

theorem patch_detail_keeps_identifier_field:
  "db (snd (patch_detail (recording_store None []) (plain_kule None) ''items''
              ''0123456789abcdefABCDEF01''
              \<lparr>json = Some [(''_id'', JStr ''x''), (''a'', JNum 1)], query = []\<rparr> (world0 [])))
   = [Update ''items''
        [(''_id'', JOid [0, 1, 2, 3, 4, 5, 6, 7, 8, 9, 10, 11, 12, 13, 14, 15,
                         10, 11, 12, 13, 14, 15, 0, 1])]
        [(''$set'', JObj [(''_id'', JStr ''x''), (''a'', JNum 1)])]]
   \<and> db (snd (put_detail (recording_store None []) (plain_kule None) ''items''
              ''0123456789abcdefABCDEF01''
              \<lparr>json = Some [(''_id'', JStr ''x''), (''a'', JNum 1)], query = []\<rparr> (world0 [])))
   = [Update ''items''
        [(''_id'', JOid [0, 1, 2, 3, 4, 5, 6, 7, 8, 9, 10, 11, 12, 13, 14, 15,
                         10, 11, 12, 13, 14, 15, 0, 1])]
        [(''a'', JNum 1)]]"
  by (simp add: patch_detail_def put_detail_def get_detail_def get_collection_def
      json_value_def ObjectId_sample stand_in_defs abort_def Let_def)

text \<open>
  C3. The claim: an invalid identifier string, or a filter parameter that fails to
  parse, is caught in the gateway and answered with 400. The code catches neither
  exception: the identifier \<^verbatim>\<open>xyz\<close> on a GET detail request is answered with 500.
\<close>

theorem invalid_identifier_answers_500:
  "code (fst (serve (recording_store None []) (plain_kule None) GET
                (DetailPath ''items'' ''xyz'') \<lparr>json = None, query = []\<rparr> [])) = 500
   \<and> code (fst (serve (recording_store None []) (plain_kule None) GET
                (DetailPath ''items'' ''xyz'') \<lparr>json = None, query = []\<rparr> [])) \<noteq> 400"
  by (simp add: serve_def route_request_def chosen_rule_def dispatch_views_def generic_views_def
      getattr_view_def kule_views_def call2_def unexpected_def get_detail_def
      get_collection_def ObjectId_def finish_def error_response_def plain_kule_def world0_def)

text \<open>
  C3, as the code has it: on a permitted collection, every detail operation given an
  identifier string that is not a valid identifier raises \<^verbatim>\<open>InvalidId\<close>, and
  \<^verbatim>\<open>get_list\<close> given a non-empty filter parameter that fails to parse raises
  \<^verbatim>\<open>ValueError\<close>; nothing catches them, and the response is 500 with the error
  envelope. (\<^verbatim>\<open>put_detail\<close> without a JSON body fails earlier, also with 500.)
\<close>

theorem malformed_input_is_uncaught:
  assumes "get_collection k c = Inr c"
  shows "(ObjectId pk = Inl InvalidId \<longrightarrow>
            fst (get_detail env k c pk w) = Inl InvalidId
          \<and> fst (patch_detail env k c pk req w) = Inl InvalidId
          \<and> fst (delete_detail env k c pk w) = Inl InvalidId
          \<and> (json req \<noteq> None \<longrightarrow> fst (put_detail env k c pk req w) = Inl InvalidId)
          \<and> fst (finish (get_detail env k c pk w)) = error_response 500 ''Internal Server Error''
          \<and> fst (finish (put_detail env k c pk req w)) = error_response 500 ''Internal Server Error''
          \<and> fst (finish (patch_detail env k c pk req w)) = error_response 500 ''Internal Server Error''
          \<and> fst (finish (delete_detail env k c pk w)) = error_response 500 ''Internal Server Error'')
       \<and> (map_of (query req) ''query'' = Some qs \<and> qs \<noteq> [] \<and> bson_loads env qs = None \<longrightarrow>
            fst (get_list env k c fmt req w) = Inl ValueError
          \<and> fst (finish (get_list env k c fmt req w)) = error_response 500 ''Internal Server Error'')
       \<and> error_response 500 ''Internal Server Error'' =
            \<lparr>code = 500,
             content = jsonify (JObj [(''error'', JNum 500),
                                      (''message'', JStr ''Internal Server Error'')])\<rparr>"
  using assms
  by (auto simp: handler_defs get_query_def finish_def error_response_500 Let_def
      split: option.splits)

theorem malformed_input_is_uncaught_witness:
  "get_collection (plain_kule None :: (store_call list) kule) ''items'' = Inr ''items''
   \<and> ObjectId ''xyz'' = Inl InvalidId
   \<and> json \<lparr>json = Some [(''a'', JNum 1)], query = [(''query'', ''{'')]\<rparr> \<noteq> None
   \<and> map_of (query \<lparr>json = Some [(''a'', JNum 1)], query = [(''query'', ''{'')]\<rparr>) ''query''
       = Some ''{''
   \<and> ''{'' \<noteq> []
   \<and> bson_loads (recording_store None []) ''{'' = None
   \<and> fst (put_detail (recording_store None []) (plain_kule None) ''items'' ''xyz''
            \<lparr>json = Some [(''a'', JNum 1)], query = [(''query'', ''{'')]\<rparr> (world0 []))
       = Inl InvalidId
   \<and> code (fst (finish (get_detail (recording_store None []) (plain_kule None) ''items'' ''xyz''
                          (world0 [])))) = 500
   \<and> code (fst (finish (get_list (recording_store None []) (plain_kule None) ''items'' ''.json''
                          \<lparr>json = Some [(''a'', JNum 1)], query = [(''query'', ''{'')]\<rparr>
                          (world0 [])))) = 500"
proof -
  have a: "get_collection (plain_kule None :: (store_call list) kule) ''items'' = Inr ''items''"
    by (rule plain_kule_permits)
  have b: "ObjectId ''xyz'' = Inl InvalidId"
    by (simp add: ObjectId_wrong_length)
  have c: "bson_loads (recording_store None []) ''{'' = None"
    by (simp add: recording_store_def)
  show ?thesis
    using malformed_input_is_uncaught [OF a, where pk = "''xyz''" and qs = "''{''"
        and env = "recording_store None []" and w = "world0 []" and fmt = "''.json''"
        and req = "\<lparr>json = Some [(''a'', JNum 1)], query = [(''query'', ''{'')]\<rparr>"]
      a b c
    by simp
qed

text \<open>
  C4. The claim: \<^verbatim>\<open>put_detail\<close> returns the payload after the collection's bundler
  has been applied to it. The code returns the payload as it is: with a bundler
  registered for the collection, the body is not the bundled payload.
\<close>

theorem put_detail_skips_bundler:
  "fst (put_detail (recording_store None []) tagging_kule ''users''
          ''0123456789abcdefABCDEF01'' \<lparr>json = Some [(''a'', JNum 1)], query = []\<rparr> (world0 []))
   \<noteq> Inr (jsonify (JObj (get_bundler tagging_kule ''users'' [(''a'', JNum 1)])))"
  by (simp add: put_detail_def get_collection_def get_bundler_def tagging_kule_def
      ObjectId_sample jsonify_def stand_in_defs Let_def)

text \<open>
  C4, as the code has it: on a permitted collection, with a JSON object as payload and
  a valid identifier, \<^verbatim>\<open>put_detail\<close> returns the payload without its identifier
  field, not bundled, sets status 202, and hands the same document to the store's
  update.
\<close>

theorem put_detail_echoes_payload:
  assumes "get_collection k c = Inr c" "json req = Some j" "ObjectId pk = Inr oid"
  shows "put_detail env k c pk req w =
           (Inr (jsonify (JObj (AList.delete ''_id'' j))),
            w\<lparr>db := c_update env (db w) c [(''_id'', oid)] (AList.delete ''_id'' j),
              status := 202\<rparr>)"
  using assms by (simp add: put_detail_def Let_def delete_absent)

theorem put_detail_echoes_payload_witness:
  "get_collection (tagging_kule :: (store_call list) kule) ''users'' = Inr ''users''
   \<and> json \<lparr>json = Some [(''_id'', JStr ''x''), (''a'', JNum 1)], query = []\<rparr>
        = Some [(''_id'', JStr ''x''), (''a'', JNum 1)]
   \<and> ObjectId ''0123456789abcdefABCDEF01''
        = Inr (JOid [0, 1, 2, 3, 4, 5, 6, 7, 8, 9, 10, 11, 12, 13, 14, 15,
                     10, 11, 12, 13, 14, 15, 0, 1])
   \<and> put_detail (recording_store None []) tagging_kule ''users'' ''0123456789abcdefABCDEF01''
        \<lparr>json = Some [(''_id'', JStr ''x''), (''a'', JNum 1)], query = []\<rparr> (world0 [])
      = (Inr (jsonify (JObj [(''a'', JNum 1)])),
         \<lparr>db = [Update ''users''
                  [(''_id'', JOid [0, 1, 2, 3, 4, 5, 6, 7, 8, 9, 10, 11, 12, 13, 14, 15,
                                   10, 11, 12, 13, 14, 15, 0, 1])]
                  [(''a'', JNum 1)]],
          status = 202, ctype = None\<rparr>)"
proof -
  have a: "get_collection (tagging_kule :: (store_call list) kule) ''users'' = Inr ''users''"
    by (simp add: get_collection_def tagging_kule_def)
  have b: "json \<lparr>json = Some [(''_id'', JStr ''x''), (''a'', JNum 1)], query = []\<rparr>
        = Some [(''_id'', JStr ''x''), (''a'', JNum 1)]"
    by simp
  show ?thesis
    using put_detail_echoes_payload
            [OF a b ObjectId_sample, of "recording_store None []" "world0 []"]
          a ObjectId_sample
    by (simp add: stand_in_defs)
qed

text \<open>
  C5. The claim: with an allow-list configured, a request for a collection outside it
  fails with 403 for every HTTP method, OPTIONS included. The code answers OPTIONS
  with \<^verbatim>\<open>empty_response\<close>, which never looks at the allow-list: an OPTIONS request
  for a collection outside the allow-list is answered with 200.
\<close>

theorem options_ignores_allow_list:
  "code (fst (serve (recording_store None []) (plain_kule (Some [''users''])) OPTIONS
                (ListPath ''orders'' []) \<lparr>json = None, query = []\<rparr> [])) = 200
   \<and> code (fst (serve (recording_store None []) (plain_kule (Some [''users''])) OPTIONS
                (ListPath ''orders'' []) \<lparr>json = None, query = []\<rparr> [])) \<noteq> 403"
  by (simp add: serve_def route_request_def chosen_rule_def dispatch_views_def generic_views_def
      magical_views_def getattr_view_def kule_views_def empty_response_def
      finish_def plain_kule_def world0_def)

text \<open>
  C5, as the code has it: with a non-empty allow-list configured, each of the six
  gateway operations called for a collection outside it fails with
  \<^verbatim>\<open>abort(403)\<close> before anything else happens, leaving the store and the response
  untouched, and the response is 403.
\<close>

theorem gateway_forbidden:
  assumes "collections k = Some cs" "cs \<noteq> []" "c \<notin> set cs"
  shows "get_detail env k c pk w = (abort 403, w)
       \<and> put_detail env k c pk req w = (abort 403, w)
       \<and> patch_detail env k c pk req w = (abort 403, w)
       \<and> delete_detail env k c pk w = (abort 403, w)
       \<and> post_list env k c req w = (abort 403, w)
       \<and> get_list env k c fmt req w = (abort 403, w)
       \<and> code (fst (finish (abort 403, w))) = 403"
  using assms
  by (simp add: handler_defs get_collection_def abort_def finish_def error_response_def)

theorem gateway_forbidden_witness:
  "collections (plain_kule (Some [''users'']) :: (store_call list) kule) = Some [''users'']
   \<and> [''users''] \<noteq> []
   \<and> ''orders'' \<notin> set [''users'']
   \<and> post_list (recording_store None []) (plain_kule (Some [''users''])) ''orders''
        \<lparr>json = Some [(''a'', JNum 1)], query = []\<rparr> (world0 [])
      = (Inl (HTTPError 403 abort_text), world0 [])
   \<and> get_list (recording_store None []) (plain_kule (Some [''users''])) ''orders'' ''.json''
        \<lparr>json = Some [(''a'', JNum 1)], query = []\<rparr> (world0 [])
      = (Inl (HTTPError 403 abort_text), world0 [])"
proof -
  have a: "collections (plain_kule (Some [''users'']) :: (store_call list) kule)
             = Some [''users'']"
    by (simp add: plain_kule_def)
  have b: "[''users''] \<noteq> []" by simp
  have c: "''orders'' \<notin> set [''users'']" by simp
  show ?thesis
    using gateway_forbidden [OF a b c, where env = "recording_store None []"
        and w = "world0 []" and fmt = "''.json''"
        and req = "\<lparr>json = Some [(''a'', JNum 1)], query = []\<rparr>"] a
    by (simp add: abort_def)
qed

text \<open>
  C6. The claim: for every limit and offset, the objects of the envelope are at most
  \<open>limit\<close> many. The code hands the limit to the cursor as it is, and the cursor
  reads a limit of 0 as no limit: a request with \<^verbatim>\<open>limit=0\<close> over two matching
  documents returns both.
\<close>

theorem get_list_limit_zero_returns_all:
  "fst (get_list (recording_store None [[(''a'', JNum 1)], [(''a'', JNum 2)]])
          (plain_kule None) ''items'' ''.json''
          \<lparr>json = None, query = [(''limit'', ''0'')]\<rparr> (world0 []))
   = Inr (Some (Jsonify,
          JObj [(''meta'', JObj [(''limit'', JNum 0), (''offset'', JNum 0),
                                 (''total_count'', JNum 2)]),
                (''objects'', JArr [JObj [(''a'', JNum 1)], JObj [(''a'', JNum 2)]])]))
   \<and> \<not> length [JObj [(''a'', JNum 1)], JObj [(''a'', JNum 2)]] \<le> (0 :: nat)"
  by (simp add: get_list_def get_collection_def get_query_def get_fields_def
      get_bundler_def build_bundle_def int_or_default_def query_attr_def digit_val_def
      cursor_count_def cursor_skip_def cursor_limit_def page_def formatters_def
      defaultdict_get_def jsonify_def stand_in_defs)

text \<open>
  C6, as the code has it: on a permitted collection, with \<open>q\<close> the filter decoded
  from the \<^verbatim>\<open>query\<close> parameter (the empty filter when the parameter is absent or
  empty) and \<open>flds\<close> the decoded projection, \<^verbatim>\<open>get_list\<close> returns the envelope
  whose \<^verbatim>\<open>total_count\<close> is the number of documents that \<^verbatim>\<open>find\<close> matched,
  counted before skip and limit, and whose objects are the bundled documents left after
  skipping \<open>offset\<close> and limiting to \<open>limit\<close>; for a limit greater than 0 they are
  at most \<open>limit\<close> many.
\<close>

theorem get_list_page:
  assumes "get_collection k c = Inr c"
    and "int_or_default (query_attr req ''limit'') 20 = limit"
    and "int_or_default (query_attr req ''offset'') 0 = offset"
    and "case map_of (query req) ''query'' of
           None \<Rightarrow> q = []
         | Some qs \<Rightarrow> if qs = [] then q = [] else bson_loads env qs = Some q"
    and "case map_of (query req) ''fields'' of
           None \<Rightarrow> flds = None
         | Some fs \<Rightarrow> if fs = [] then flds = None
                      else flds \<noteq> None \<and> json_loads env fs = flds"
    and "bundler = (case bundle_attrs k (''build_'' @ c @ ''_bundle'') of
                      Some f \<Rightarrow> f
                    | None \<Rightarrow> (\<lambda>data. data))"
    and "matching = c_find env (db w) c q flds"
    and "objects = map bundler (if limit = 0 then drop offset matching
                               else take limit (drop offset matching))"
  shows "fst (get_list env k c fmt req w) =
           Inr (Some (if fmt = ''.csv'' then Csvify else Jsonify,
                  JObj [(''meta'', JObj [(''limit'', JNum (int limit)),
                                         (''offset'', JNum (int offset)),
                                         (''total_count'', JNum (int (length matching)))]),
                        (''objects'', JArr (map JObj objects))]))
       \<and> (0 < limit \<longrightarrow> length objects \<le> limit)"
proof -
  have q: "get_query env req = Inr q"
    using assms(4) by (auto simp: get_query_def split: option.splits if_splits)
  have f: "get_fields env req = Inr flds"
    using assms(5) by (auto simp: get_fields_def split: option.splits if_splits)
  have b: "get_bundler k c = bundler"
    using assms(6) by (simp add: get_bundler_def build_bundle_def fun_eq_iff split: option.splits)
  have e: "encode (formatters fmt) = (\<lambda>v. Some (if fmt = ''.csv'' then Csvify else Jsonify, v))"
    by (simp add: formatters_def defaultdict_get_def jsonify_def csvify_def fun_eq_iff)
  have size: "0 < limit \<longrightarrow> length objects \<le> limit"
    using assms(8) by simp
  have "fst (get_list env k c fmt req w) =
          Inr (encode (formatters fmt) (page limit offset (length matching) objects))"
    using assms(1,2,3,7,8) q f b
    by (simp add: get_list_def Let_def cursor_count_def cursor_skip_def cursor_limit_def)
  with size show ?thesis
    by (simp add: e page_def)
qed

theorem get_list_page_witness:
  "get_collection (tagging_kule :: (store_call list) kule) ''users'' = Inr ''users''
   \<and> int_or_default
        (query_attr \<lparr>json = None, query = [(''query'', sample_filter), (''limit'', ''2''),
                                           (''offset'', ''1'')]\<rparr> ''limit'') 20 = 2
   \<and> int_or_default
        (query_attr \<lparr>json = None, query = [(''query'', sample_filter), (''limit'', ''2''),
                                           (''offset'', ''1'')]\<rparr> ''offset'') 0 = 1
   \<and> bson_loads (filtering_store
          [[(''a'', JNum 1)], [(''a'', JNum 2), (''b'', JNum 1)],
           [(''a'', JNum 2), (''b'', JNum 2)], [(''a'', JNum 2), (''b'', JNum 3)]])
        sample_filter = Some [(''a'', JNum 2)]
   \<and> c_find (filtering_store
          [[(''a'', JNum 1)], [(''a'', JNum 2), (''b'', JNum 1)],
           [(''a'', JNum 2), (''b'', JNum 2)], [(''a'', JNum 2), (''b'', JNum 3)]])
        [] ''users'' [(''a'', JNum 2)] None
      = [[(''a'', JNum 2), (''b'', JNum 1)], [(''a'', JNum 2), (''b'', JNum 2)],
         [(''a'', JNum 2), (''b'', JNum 3)]]
   \<and> (0 :: nat) < 2
   \<and> fst (get_list (filtering_store
               [[(''a'', JNum 1)], [(''a'', JNum 2), (''b'', JNum 1)],
                [(''a'', JNum 2), (''b'', JNum 2)], [(''a'', JNum 2), (''b'', JNum 3)]])
             tagging_kule ''users'' ''.csv''
             \<lparr>json = None, query = [(''query'', sample_filter), (''limit'', ''2''),
                                     (''offset'', ''1'')]\<rparr> (world0 []))
      = Inr (Some (Csvify,
             JObj [(''meta'', JObj [(''limit'', JNum 2), (''offset'', JNum 1),
                                    (''total_count'', JNum 3)]),
                   (''objects'',
                    JArr [JObj [(''bundled'', JBool True), (''a'', JNum 2), (''b'', JNum 2)],
                          JObj [(''bundled'', JBool True), (''a'', JNum 2), (''b'', JNum 3)]])]))"
proof -
  let ?docs = "[[(''a'', JNum 1)], [(''a'', JNum 2), (''b'', JNum 1)],
                [(''a'', JNum 2), (''b'', JNum 2)], [(''a'', JNum 2), (''b'', JNum 3)]]"
  let ?env = "filtering_store ?docs"
  let ?req = "\<lparr>json = None, query = [(''query'', sample_filter), (''limit'', ''2''),
                                      (''offset'', ''1'')]\<rparr>"
  let ?tag = "\<lambda>data :: document. (''bundled'', JBool True) # data"
  let ?matching = "[[(''a'', JNum 2), (''b'', JNum 1)], [(''a'', JNum 2), (''b'', JNum 2)],
                    [(''a'', JNum 2), (''b'', JNum 3)]]"
  have a: "get_collection (tagging_kule :: (store_call list) kule) ''users'' = Inr ''users''"
    by (simp add: get_collection_def tagging_kule_def)
  have l: "int_or_default (query_attr ?req ''limit'') 20 = 2"
    by (simp add: int_or_default_def query_attr_def digit_val_def sample_filter_def)
  have o: "int_or_default (query_attr ?req ''offset'') 0 = 1"
    by (simp add: int_or_default_def query_attr_def digit_val_def sample_filter_def)
  have p: "bson_loads ?env sample_filter = Some [(''a'', JNum 2)]"
    by (simp add: filtering_store_def recording_store_def sample_filter_def)
  have q: "case map_of (query ?req) ''query'' of
             None \<Rightarrow> [(''a'', JNum 2)] = []
           | Some qs \<Rightarrow> if qs = [] then [(''a'', JNum 2)] = []
                        else bson_loads ?env qs = Some [(''a'', JNum 2)]"
    using p by (simp add: sample_filter_def)
  have f: "case map_of (query ?req) ''fields'' of
             None \<Rightarrow> (None :: jvalue option) = None
           | Some fs \<Rightarrow> if fs = [] then (None :: jvalue option) = None
                        else (None :: jvalue option) \<noteq> None \<and> json_loads ?env fs = None"
    by simp
  have b: "?tag = (case bundle_attrs (tagging_kule :: (store_call list) kule)
                          (''build_'' @ ''users'' @ ''_bundle'') of
                     Some f \<Rightarrow> f
                   | None \<Rightarrow> (\<lambda>data. data))"
    by (simp add: tagging_kule_def)
  have m: "c_find ?env [] ''users'' [(''a'', JNum 2)] None = ?matching"
    by (simp add: filtering_store_def recording_store_def matches_spec_def)
  have m': "?matching = c_find ?env (db (world0 [])) ''users'' [(''a'', JNum 2)] None"
    using m by (simp add: world0_def)
  show ?thesis
    using get_list_page [OF a l o q f b m' refl, of "''.csv''"] a l o p m
    by (simp add: numeral_2_eq_2)
qed




text \<open>
  C8. Formatter resolution is total: the CSV suffix gives the CSV encoder and
  \<^verbatim>\<open>text/csv\<close>; the JSON suffix and every other token, the empty one included,
  give the JSON encoder and \<^verbatim>\<open>application/json\<close>.
\<close>

theorem formatter_resolution:
  "formatters fmt = (if fmt = ''.csv'' then Csvify else Jsonify)
   \<and> content_types fmt = (if fmt = ''.csv'' then ''text/csv'' else ''application/json'')"
  by (simp add: formatters_def content_types_def defaultdict_get_def)

theorem formatter_resolution_witness:
  "formatters ''.xyz'' = Jsonify \<and> content_types ''.xyz'' = ''application/json''"
  using formatter_resolution [of "''.xyz''"] by simp

text \<open>
  C9. On a permitted collection and with a valid identifier, if the store answers the
  lookup with an empty document, \<^verbatim>\<open>get_detail\<close> fails with \<^verbatim>\<open>abort(404)\<close> and
  the response is 404.
\<close>

theorem get_detail_empty_document:
  assumes "get_collection k c = Inr c" "ObjectId pk = Inr oid"
    "c_find_one env (db w) c [(''_id'', oid)] = Some []"
  shows "get_detail env k c pk w = (abort 404, w)
       \<and> code (fst (finish (get_detail env k c pk w))) = 404"
  using assms by (simp add: get_detail_def abort_def finish_def error_response_def)

theorem get_detail_empty_document_witness:
  "get_collection (plain_kule None :: (store_call list) kule) ''items'' = Inr ''items''
   \<and> c_find_one (recording_store (Some []) []) (db (world0 [])) ''items''
        [(''_id'', JOid [0, 1, 2, 3, 4, 5, 6, 7, 8, 9, 10, 11, 12, 13, 14, 15,
                         10, 11, 12, 13, 14, 15, 0, 1])] = Some []
   \<and> get_detail (recording_store (Some []) []) (plain_kule None) ''items''
        ''0123456789abcdefABCDEF01'' (world0 [])
      = (Inl (HTTPError 404 abort_text), world0 [])"
proof -
  have a: "get_collection (plain_kule None :: (store_call list) kule) ''items'' = Inr ''items''"
    by (rule plain_kule_permits)
  have b: "c_find_one (recording_store (Some []) []) (db (world0 [])) ''items''
        [(''_id'', JOid [0, 1, 2, 3, 4, 5, 6, 7, 8, 9, 10, 11, 12, 13, 14, 15,
                         10, 11, 12, 13, 14, 15, 0, 1])] = Some []"
    by (simp add: recording_store_def)
  show ?thesis
    using get_detail_empty_document [OF a ObjectId_sample b] a b
    by (simp add: abort_def)
qed

text \<open>
  C10. On a permitted collection and with a valid identifier that matches no stored
  document, so that the update changes nothing, \<^verbatim>\<open>patch_detail\<close> fails with
  \<^verbatim>\<open>abort(404)\<close> raised by \<^verbatim>\<open>get_detail\<close>: the response is 404, although the
  handler has set status 202 before.
\<close>

theorem patch_detail_missing_document:
  assumes "get_collection k c = Inr c" "ObjectId pk = Inr oid"
    "c_find_one env (db w) c [(''_id'', oid)] = None"
    "c_update env (db w) c [(''_id'', oid)] [(''$set'', json_value req)] = db w"
  shows "patch_detail env k c pk req w = (abort 404, w\<lparr>status := 202\<rparr>)
       \<and> code (fst (finish (patch_detail env k c pk req w))) = 404"
  using assms
  by (simp add: patch_detail_def get_detail_def abort_def finish_def error_response_def)

theorem patch_detail_missing_document_witness:
  "get_collection (plain_kule None :: (store_call list) kule) ''items'' = Inr ''items''
   \<and> c_find_one empty_store (db (world0 [])) ''items''
        [(''_id'', JOid [0, 1, 2, 3, 4, 5, 6, 7, 8, 9, 10, 11, 12, 13, 14, 15,
                         10, 11, 12, 13, 14, 15, 0, 1])] = None
   \<and> c_update empty_store (db (world0 [])) ''items''
        [(''_id'', JOid [0, 1, 2, 3, 4, 5, 6, 7, 8, 9, 10, 11, 12, 13, 14, 15,
                         10, 11, 12, 13, 14, 15, 0, 1])]
        [(''$set'', json_value \<lparr>json = Some [(''a'', JNum 1)], query = []\<rparr>)] = db (world0 [])
   \<and> code (fst (finish (patch_detail empty_store (plain_kule None) ''items''
                          ''0123456789abcdefABCDEF01''
                          \<lparr>json = Some [(''a'', JNum 1)], query = []\<rparr> (world0 [])))) = 404"
proof -
  let ?oid = "JOid [0, 1, 2, 3, 4, 5, 6, 7, 8, 9, 10, 11, 12, 13, 14, 15,
                    10, 11, 12, 13, 14, 15, 0, 1]"
  let ?req = "\<lparr>json = Some [(''a'', JNum 1)], query = []\<rparr>"
  have a: "get_collection (plain_kule None :: (store_call list) kule) ''items'' = Inr ''items''"
    by (rule plain_kule_permits)
  have b: "c_find_one empty_store (db (world0 [])) ''items'' [(''_id'', ?oid)] = None"
    by (simp add: stand_in_defs)
  have c: "c_update empty_store (db (world0 [])) ''items'' [(''_id'', ?oid)]
             [(''$set'', json_value ?req)] = db (world0 [])"
    by (simp add: stand_in_defs)
  show ?thesis
    using patch_detail_missing_document [OF a ObjectId_sample b c] a b c
    by (simp add: abort_def finish_def error_response_def)
qed

end
